theory Spec2Isabelle
  imports Complex_Main
begin

section \<open>Numbers and errors\<close>

text \<open>
  Python exceptions the modelled code can raise.  The string is the name of the
  attribute, key or argument the interpreter reports.
\<close>

datatype py_error =
    AttributeError string
  | KeyError string
  | ValueError string
  | ZeroDivisionError

text \<open>
  A numpy \<open>float64\<close>: a finite value, the two infinities, or NaN.  Finite values are
  exact reals: rounding, overflow to infinity and the sign of zero are not modelled
  (a zero divisor is taken as \<open>+0.0\<close>, which is what a variance or a sum of squares
  produces).  numpy arithmetic never raises: a division by zero yields an infinity or NaN.
\<close>

datatype npfloat = Fin real | PInf | NInf | NaN

fun fneg :: "npfloat \<Rightarrow> npfloat" where
  "fneg (Fin a) = Fin (- a)"
| "fneg PInf = NInf"
| "fneg NInf = PInf"
| "fneg NaN = NaN"

fun fadd :: "npfloat \<Rightarrow> npfloat \<Rightarrow> npfloat" where
  "fadd (Fin a) (Fin b) = Fin (a + b)"
| "fadd NaN _ = NaN"
| "fadd _ NaN = NaN"
| "fadd PInf NInf = NaN"
| "fadd NInf PInf = NaN"
| "fadd PInf _ = PInf"
| "fadd _ PInf = PInf"
| "fadd NInf _ = NInf"
| "fadd _ NInf = NInf"

definition fsub :: "npfloat \<Rightarrow> npfloat \<Rightarrow> npfloat" where
  "fsub a b = fadd a (fneg b)"

text \<open>The sign of a value that is not NaN, as \<open>-1\<close>, \<open>0\<close> or \<open>1\<close>.\<close>

fun fsign :: "npfloat \<Rightarrow> int" where
  "fsign (Fin a) = (if a < 0 then - 1 else if a = 0 then 0 else 1)"
| "fsign PInf = 1"
| "fsign NInf = - 1"
| "fsign NaN = 0"

definition signed_inf :: "int \<Rightarrow> npfloat" where
  "signed_inf s = (if s = 0 then NaN else if 0 < s then PInf else NInf)"

fun fmul :: "npfloat \<Rightarrow> npfloat \<Rightarrow> npfloat" where
  "fmul (Fin a) (Fin b) = Fin (a * b)"
| "fmul NaN _ = NaN"
| "fmul _ NaN = NaN"
| "fmul a b = signed_inf (fsign a * fsign b)"

fun fdiv :: "npfloat \<Rightarrow> npfloat \<Rightarrow> npfloat" where
  "fdiv (Fin a) (Fin b) = (if b = 0 then signed_inf (fsign (Fin a)) else Fin (a / b))"
| "fdiv NaN _ = NaN"
| "fdiv _ NaN = NaN"
| "fdiv (Fin a) _ = Fin 0"
| "fdiv a (Fin b) = signed_inf (fsign a * (if b < 0 then - 1 else 1))"
| "fdiv _ _ = NaN"

fun fsqrt :: "npfloat \<Rightarrow> npfloat" where
  "fsqrt (Fin a) = (if a < 0 then NaN else Fin (sqrt a))"
| "fsqrt PInf = PInf"
| "fsqrt NInf = NaN"
| "fsqrt NaN = NaN"

text \<open>Comparisons: every comparison with NaN is false.\<close>

fun flt :: "npfloat \<Rightarrow> npfloat \<Rightarrow> bool" where
  "flt (Fin a) (Fin b) = (a < b)"
| "flt NaN _ = False"
| "flt _ NaN = False"
| "flt _ NInf = False"
| "flt PInf _ = False"
| "flt _ _ = True"

definition fle :: "npfloat \<Rightarrow> npfloat \<Rightarrow> bool" where
  "fle a b = (a \<noteq> NaN \<and> b \<noteq> NaN \<and> (a = b \<or> flt a b))"

text \<open>
  Python's builtin \<open>max(a, b)\<close>: it keeps \<open>a\<close> unless \<open>b > a\<close>, so a NaN in first
  position survives.
\<close>

definition py_max :: "npfloat \<Rightarrow> npfloat \<Rightarrow> npfloat" where
  "py_max a b = (if flt a b then b else a)"

text \<open>
  \<open>np.mean\<close> and \<open>np.var(..., ddof)\<close> of finite samples.  The mean of no value is NaN;
  the variance divides the sum of squared deviations by \<open>max(n - ddof, 0)\<close> (the
  truncating subtraction on \<open>nat\<close>), a division that numpy does not guard.
\<close>

definition mean_real :: "real list \<Rightarrow> real" where
  "mean_real xs = sum_list xs / real (length xs)"

definition np_mean :: "real list \<Rightarrow> npfloat" where
  "np_mean xs = (if xs = [] then NaN else Fin (mean_real xs))"

definition sq_dev :: "real list \<Rightarrow> real" where
  "sq_dev xs = sum_list (map (\<lambda>x. (x - mean_real xs)\<^sup>2) xs)"

definition np_var :: "nat \<Rightarrow> real list \<Rightarrow> npfloat" where
  "np_var ddof xs =
     (if xs = [] then NaN else fdiv (Fin (sq_dev xs)) (Fin (real (length xs - ddof))))"

text \<open>
  Python slicing \<open>xs[start:stop]\<close> and \<open>xs[start:]\<close>: a negative bound counts from the
  end, and every bound is clamped to the list.
\<close>

definition slice_bound :: "'a list \<Rightarrow> int \<Rightarrow> nat" where
  "slice_bound xs i =
     (let n = int (length xs) in nat (if i < 0 then max (n + i) 0 else min i n))"

definition py_slice :: "'a list \<Rightarrow> int \<Rightarrow> int \<Rightarrow> 'a list" where
  "py_slice xs start stop =
     take (slice_bound xs stop - slice_bound xs start) (drop (slice_bound xs start) xs)"

definition py_slice_from :: "'a list \<Rightarrow> int \<Rightarrow> 'a list" where
  "py_slice_from xs start = drop (slice_bound xs start) xs"

section \<open>The z-score helper (utils/indicators.py)\<close>

text \<open>Division of two Python floats raises on a zero divisor.\<close>

definition py_truediv :: "real \<Rightarrow> real \<Rightarrow> py_error + real" where
  "py_truediv a b = (if b = 0 then Inl ZeroDivisionError else Inr (a / b))"

definition compute_z_score :: "real \<Rightarrow> real \<Rightarrow> real \<Rightarrow> py_error + real" where
  "compute_z_score val mean std =
     (if std = 0 then Inr 0 else py_truediv (val - mean) std)"

section \<open>The Bayesian signal generator (strategies/bond_arb_strategy.py)\<close>

record strategy =
  window_size :: int
  prior_window :: int
  position :: "int option"
  history :: "real list"

definition strategy_init :: "int \<Rightarrow> int \<Rightarrow> strategy" where
  "strategy_init w p = \<lparr>window_size = w, prior_window = p, position = None, history = []\<rparr>"

definition get_prior_data :: "strategy \<Rightarrow> real list" where
  "get_prior_data s =
     (let start = max 0 (int (length (history s)) - prior_window s - window_size s);
          end = int (length (history s)) - window_size s
      in py_slice (history s) start end)"

definition get_window_data :: "strategy \<Rightarrow> real list" where
  "get_window_data s = py_slice_from (history s) (- window_size s)"

text \<open>
  \<open>update_parameters\<close> returns the updated object and the triple
  \<open>(z_score, mu_post, sigma_post)\<close>; \<open>None\<close> stands for the warm-up result
  \<open>(None, None, None)\<close>.
\<close>

definition update_parameters ::
  "strategy \<Rightarrow> real \<Rightarrow> strategy \<times> (npfloat \<times> npfloat \<times> npfloat) option" where
  "update_parameters s new_spread_value =
     (let s' = s\<lparr>history := history s @ [new_spread_value]\<rparr> in
      if int (length (history s')) < window_size s' + 2 then (s', None)
      else
        let prior_data = get_prior_data s';
            mu0 = np_mean prior_data;
            tau2 = np_var 0 prior_data;
            window_data = get_window_data s';
            n = Fin (real (length window_data));
            X_bar = np_mean window_data;
            window_var = py_max (np_var 1 window_data) (Fin (1 / 10 ^ 8));
            sigma_post2 = fdiv (Fin 1) (fadd (fdiv n window_var) (fdiv (Fin 1) tau2));
            mu_post = fmul sigma_post2 (fadd (fdiv (fmul n X_bar) window_var) (fdiv mu0 tau2));
            sigma_post = fsqrt sigma_post2;
            z_score = fdiv (fsub (Fin new_spread_value) mu_post) sigma_post
        in (s', Some (z_score, mu_post, sigma_post)))"

text \<open>A stream of observations fed to \<open>update_parameters\<close> one call after the other.\<close>

fun run_updates :: "strategy \<Rightarrow> real list \<Rightarrow> strategy" where
  "run_updates s [] = s"
| "run_updates s (x # xs) = run_updates (fst (update_parameters s x)) xs"

section \<open>The risk analyzer (risk/risk_metrics.py)\<close>

text \<open>
  Computations that may raise are chained with \<open>ebind\<close>: the first exception ends the
  computation, as in Python.
\<close>

definition ebind :: "py_error + 'a \<Rightarrow> ('a \<Rightarrow> py_error + 'b) \<Rightarrow> py_error + 'b" where
  "ebind m f = (case m of Inl e \<Rightarrow> Inl e | Inr a \<Rightarrow> f a)"

text \<open>Reading an instance attribute that was never assigned raises \<open>AttributeError\<close>.\<close>

definition get_attr :: "string \<Rightarrow> 'a option \<Rightarrow> py_error + 'a" where
  "get_attr name v = (case v of None \<Rightarrow> Inl (AttributeError name) | Some a \<Rightarrow> Inr a)"

text \<open>Reading a column that a DataFrame does not have raises \<open>KeyError\<close>.\<close>

definition get_column :: "string \<Rightarrow> 'a option \<Rightarrow> py_error + 'a" where
  "get_column name v = (case v of None \<Rightarrow> Inl (KeyError name) | Some a \<Rightarrow> Inr a)"

text \<open>numpy and pandas reductions over float64 values.\<close>

definition fsum :: "npfloat list \<Rightarrow> npfloat" where
  "fsum xs = foldl fadd (Fin 0) xs"

definition np_mean_f :: "npfloat list \<Rightarrow> npfloat" where
  "np_mean_f xs = fdiv (fsum xs) (Fin (real (length xs)))"

definition np_std_f :: "npfloat list \<Rightarrow> npfloat" where
  "np_std_f xs =
     (let m = np_mean_f xs
      in fsqrt (np_mean_f (map (\<lambda>x. fmul (fsub x m) (fsub x m)) xs)))"

text \<open>The mean of a boolean array: the fraction of its entries that are true.\<close>

definition bool_mean :: "bool list \<Rightarrow> real" where
  "bool_mean bs = real (length (filter (\<lambda>b. b) bs)) / real (length bs)"

fun cumsum_from :: "real \<Rightarrow> real list \<Rightarrow> real list" where
  "cumsum_from acc [] = []"
| "cumsum_from acc (x # xs) = (acc + x) # cumsum_from (acc + x) xs"

definition cumsum :: "real list \<Rightarrow> real list" where
  "cumsum xs = cumsum_from 0 xs"

text \<open>\<open>np.maximum.accumulate\<close>: the running maximum.\<close>

fun accumulate_from :: "real \<Rightarrow> real list \<Rightarrow> real list" where
  "accumulate_from m [] = []"
| "accumulate_from m (x # xs) = max m x # accumulate_from (max m x) xs"

definition maximum_accumulate :: "real list \<Rightarrow> real list" where
  "maximum_accumulate xs = (case xs of [] \<Rightarrow> [] | x # ys \<Rightarrow> x # accumulate_from x ys)"

text \<open>\<open>np.diff\<close>: the differences of consecutive entries, one fewer than the entries.\<close>

fun np_diff :: "int list \<Rightarrow> int list" where
  "np_diff (x # y # xs) = (y - x) # np_diff (y # xs)"
| "np_diff _ = []"

text \<open>\<open>Series.min()\<close> skips NaN; a series with no other value gives NaN.\<close>

definition fmin :: "npfloat \<Rightarrow> npfloat \<Rightarrow> npfloat" where
  "fmin a b = (if flt b a then b else a)"

definition series_min :: "npfloat list \<Rightarrow> npfloat" where
  "series_min xs =
     (case filter (\<lambda>x. x \<noteq> NaN) xs of [] \<Rightarrow> NaN | y # ys \<Rightarrow> foldl fmin y ys)"

text \<open>
  \<open>np.percentile(a, q)\<close> with the default linear interpolation: on the sorted sample
  \<open>s\<close> of \<open>n\<close> values the virtual index is \<open>(n - 1) * q / 100\<close>, and the result
  interpolates between the order statistics around it.  A \<open>q\<close> outside \<open>[0, 100]\<close> is
  rejected.  A sample holding NaN gives NaN, and so does the empty sample; a sample
  holding an infinity (which the analyzer produces only with \<open>initial_capital = 0\<close>) is
  not modelled further and is given NaN too.
\<close>

definition quantile_linear :: "real list \<Rightarrow> real \<Rightarrow> real" where
  "quantile_linear s t =
     (let v = real (length s - 1) * t;
          lo = nat \<lfloor>v\<rfloor>;
          hi = min (lo + 1) (length s - 1);
          g = v - real lo
      in s ! lo + g * (s ! hi - s ! lo))"

fun finite_values :: "npfloat list \<Rightarrow> real list option" where
  "finite_values [] = Some []"
| "finite_values (Fin a # xs) = map_option (\<lambda>ys. a # ys) (finite_values xs)"
| "finite_values (_ # xs) = None"

definition np_percentile :: "npfloat list \<Rightarrow> real \<Rightarrow> py_error + npfloat" where
  "np_percentile a q =
     (if q < 0 \<or> 100 < q then Inl (ValueError ''Percentiles must be in the range [0, 100]'')
      else case finite_values a of
             None \<Rightarrow> Inr NaN
           | Some xs \<Rightarrow> if xs = [] then Inr NaN else Inr (Fin (quantile_linear (sort xs) (q / 100))))"

text \<open>
  A trade is a dictionary; the analyzer reads its \<open>profit\<close> only.

  The analyzer object: \<open>df_profit\<close> is the \<open>profit\<close> column of \<open>self.df\<close> (absent when
  the frame is empty), and \<open>equity_curve\<close> and \<open>returns\<close> are the attributes that
  \<open>_process_trades\<close> assigns only for a non-empty frame.  \<open>helper_methods\<close> is the table
  of the no-argument statistics methods the object has beyond the ones modelled below;
  \<open>_cornish_fisher_var\<close> looks \<open>_compute_skew\<close> and \<open>_compute_kurtosis\<close> up in it.  The
  class defines neither, so the constructor leaves the table empty.
\<close>

record trade =
  trade_type :: string
  profit :: real

record analyzer =
  trades :: "trade list"
  initial_capital :: real
  df_profit :: "real list option"
  equity_curve :: "real list option"
  returns :: "npfloat list option"
  helper_methods :: "string \<Rightarrow> (npfloat list \<Rightarrow> npfloat) option"

definition process_trades :: "analyzer \<Rightarrow> analyzer" where
  "process_trades a =
     (if trades a = [] then a
      else
        let profits = map profit (trades a);
            cum_profit = cumsum profits
        in a\<lparr>df_profit := Some profits,
              equity_curve := Some (map (\<lambda>c. initial_capital a + c) cum_profit),
              returns := Some (map (\<lambda>p. fdiv (Fin p) (Fin (initial_capital a))) profits)\<rparr>)"

definition analyzer_init :: "trade list \<Rightarrow> real \<Rightarrow> analyzer" where
  "analyzer_init ts capital =
     process_trades
       \<lparr>trades = ts, initial_capital = capital, df_profit = None,
        equity_curve = None, returns = None, helper_methods = (\<lambda>name. None)\<rparr>"

definition historical_var :: "analyzer \<Rightarrow> real \<Rightarrow> py_error + npfloat" where
  "historical_var a confidence_level =
     ebind (get_attr ''returns'' (returns a))
       (\<lambda>r. np_percentile r (100 * (1 - confidence_level)))"

text \<open>\<open>norm.ppf\<close> is scipy's; it is a parameter \<open>ppf\<close> of the functions that call it.\<close>

definition parametric_var :: "(real \<Rightarrow> npfloat) \<Rightarrow> analyzer \<Rightarrow> real \<Rightarrow> py_error + npfloat" where
  "parametric_var ppf a confidence_level =
     ebind (get_attr ''returns'' (returns a))
       (\<lambda>r. let mu = np_mean_f r; sigma = np_std_f r
            in Inr (fadd mu (fmul sigma (ppf (1 - confidence_level)))))"

definition call_helper :: "analyzer \<Rightarrow> string \<Rightarrow> py_error + npfloat" where
  "call_helper a name =
     (case helper_methods a name of
        None \<Rightarrow> Inl (AttributeError name)
      | Some f \<Rightarrow> ebind (get_attr ''returns'' (returns a)) (\<lambda>r. Inr (f r)))"

definition cornish_fisher_z :: "npfloat \<Rightarrow> npfloat \<Rightarrow> npfloat \<Rightarrow> npfloat" where
  "cornish_fisher_z z skew kurt =
     (let z2 = fmul z z; z3 = fmul z2 z
      in fsub
           (fadd (fadd z (fdiv (fmul (fsub z2 (Fin 1)) skew) (Fin 6)))
                 (fdiv (fmul (fsub z3 (fmul (Fin 3) z)) kurt) (Fin 24)))
           (fdiv (fmul (fsub (fmul (Fin 2) z3) (fmul (Fin 5) z)) (fmul skew skew)) (Fin 36)))"

definition cornish_fisher_var :: "(real \<Rightarrow> npfloat) \<Rightarrow> analyzer \<Rightarrow> real \<Rightarrow> py_error + npfloat" where
  "cornish_fisher_var ppf a confidence_level =
     ebind (call_helper a ''_compute_skew'')
       (\<lambda>skew. ebind (call_helper a ''_compute_kurtosis'')
         (\<lambda>kurt. let z = ppf (1 - confidence_level);
                     z_cf = cornish_fisher_z z skew kurt
                 in ebind (get_attr ''returns'' (returns a))
                      (\<lambda>r. Inr (fadd (np_mean_f r) (fmul (np_std_f r) z_cf)))))"

definition compute_strategy_var ::
  "(real \<Rightarrow> npfloat) \<Rightarrow> analyzer \<Rightarrow> string \<Rightarrow> real \<Rightarrow> py_error + npfloat" where
  "compute_strategy_var ppf a method confidence_level =
     (if method = ''historical'' then historical_var a confidence_level
      else if method = ''gaussian'' then parametric_var ppf a confidence_level
      else if method = ''cornish-fisher'' then cornish_fisher_var ppf a confidence_level
      else Inl (ValueError ''Invalid VaR method''))"

definition compute_strategy_cvar ::
  "(real \<Rightarrow> npfloat) \<Rightarrow> analyzer \<Rightarrow> real \<Rightarrow> py_error + npfloat" where
  "compute_strategy_cvar ppf a confidence_level =
     ebind (compute_strategy_var ppf a ''historical'' confidence_level)
       (\<lambda>var. ebind (get_attr ''returns'' (returns a))
         (\<lambda>r. Inr (np_mean_f (filter (\<lambda>x. fle x var) r))))"

text \<open>The drawdown series \<open>(equity_curve - running_max) / running_max\<close>.\<close>

definition drawdown_series :: "real list \<Rightarrow> npfloat list" where
  "drawdown_series equity =
     map (\<lambda>(e, m). fdiv (Fin (e - m)) (Fin m)) (zip equity (maximum_accumulate equity))"

definition compute_drawdown_duration :: "npfloat list \<Rightarrow> real" where
  "compute_drawdown_duration drawdowns =
     (let in_drawdown = map (\<lambda>d. flt d (Fin 0)) drawdowns
      in if length drawdowns > 0 then bool_mean in_drawdown else 0)"

definition compute_recovery_time :: "npfloat list \<Rightarrow> real" where
  "compute_recovery_time drawdowns =
     (let recoveries =
            map (\<lambda>d. d = 1) (np_diff (map (\<lambda>d. if flt d (Fin 0) then 1 else 0) drawdowns))
      in if length recoveries > 0 then bool_mean recoveries else 0)"

record drawdown_stats =
  max_drawdown :: npfloat
  drawdown_duration :: real
  recovery_time :: real

definition compute_trade_drawdowns :: "analyzer \<Rightarrow> py_error + drawdown_stats" where
  "compute_trade_drawdowns a =
     ebind (get_attr ''equity_curve'' (equity_curve a))
       (\<lambda>equity. let drawdowns = drawdown_series equity
                 in Inr \<lparr>max_drawdown = series_min drawdowns,
                         drawdown_duration = compute_drawdown_duration drawdowns,
                         recovery_time = compute_recovery_time drawdowns\<rparr>)"

record risk_report =
  var_95_historical :: npfloat
  var_95_cornishfisher :: npfloat
  cvar_95 :: npfloat
  report_max_drawdown :: npfloat
  profit_factor :: npfloat
  win_rate :: real

text \<open>The entries of the report are evaluated in the order the dictionary lists them.\<close>

definition generate_risk_report :: "(real \<Rightarrow> npfloat) \<Rightarrow> analyzer \<Rightarrow> py_error + risk_report" where
  "generate_risk_report ppf a =
     ebind (compute_strategy_var ppf a ''historical'' (95 / 100)) (\<lambda>vh.
     ebind (compute_strategy_var ppf a ''cornish-fisher'' (95 / 100)) (\<lambda>vcf.
     ebind (compute_strategy_cvar ppf a (95 / 100)) (\<lambda>cv.
     ebind (compute_trade_drawdowns a) (\<lambda>dd.
     ebind (get_column ''profit'' (df_profit a)) (\<lambda>p.
       Inr \<lparr>var_95_historical = vh,
            var_95_cornishfisher = vcf,
            cvar_95 = cv,
            report_max_drawdown = max_drawdown dd,
            profit_factor =
              fdiv (Fin (sum_list (map (\<lambda>x. max x 0) p)))
                   (Fin (- sum_list (map (\<lambda>x. min x 0) p))),
            win_rate = bool_mean (map (\<lambda>x. 0 < x) p)\<rparr>)))))"

section \<open>The rolling-window backtest (research/backtesting.py)\<close>

text \<open>
  A row of the data frame as \<open>load_data\<close> leaves it: the spread and its rolling mean and
  rolling standard deviation (NaN where pandas has too few observations).
\<close>

record bt_row =
  rolling_mean :: npfloat
  rolling_std :: npfloat
  spread :: npfloat

text \<open>The body of the loop of \<open>backtest\<close> for one row after the first.\<close>

definition backtest_step :: "real \<Rightarrow> int \<Rightarrow> bt_row \<Rightarrow> int" where
  "backtest_step threshold pos row =
     (let mean = rolling_mean row; std = rolling_std row; spread = spread row;
          upper = fadd mean (fmul (Fin threshold) std);
          lower = fsub mean (fmul (Fin threshold) std)
      in if pos = 0 then
           (if flt upper spread then - 1
            else if flt spread lower then 1
            else pos)
         else if (pos = 1 \<and> fle mean spread) \<or> (pos = - 1 \<and> fle spread mean) then 0
         else pos)"

fun backtest_loop :: "real \<Rightarrow> int \<Rightarrow> bt_row list \<Rightarrow> int list" where
  "backtest_loop threshold pos [] = []"
| "backtest_loop threshold pos (row # rows) =
     (let pos' = backtest_step threshold pos row
      in pos' # backtest_loop threshold pos' rows)"

text \<open>The first row (\<open>i == 0\<close>) gets position 0 and is not looked at.\<close>

definition backtest_positions :: "real \<Rightarrow> bt_row list \<Rightarrow> int list" where
  "backtest_positions threshold rows =
     (case rows of [] \<Rightarrow> [] | row # rest \<Rightarrow> 0 # backtest_loop threshold 0 rest)"

text \<open>\<open>Series.diff()\<close>, \<open>Series.shift(1)\<close>, \<open>fillna(0)\<close> and \<open>cumsum()\<close> (which skips NaN).\<close>

fun diff_from :: "npfloat \<Rightarrow> npfloat list \<Rightarrow> npfloat list" where
  "diff_from prev [] = []"
| "diff_from prev (x # xs) = fsub x prev # diff_from x xs"

definition series_diff :: "npfloat list \<Rightarrow> npfloat list" where
  "series_diff xs = (case xs of [] \<Rightarrow> [] | x # ys \<Rightarrow> NaN # diff_from x ys)"

definition series_shift :: "int list \<Rightarrow> npfloat list" where
  "series_shift ps =
     (case ps of [] \<Rightarrow> [] | p # qs \<Rightarrow> NaN # map (\<lambda>q. Fin (real_of_int q)) (butlast ps))"

definition fillna0 :: "npfloat \<Rightarrow> npfloat" where
  "fillna0 x = (if x = NaN then Fin 0 else x)"

fun cumsum_skipna :: "npfloat \<Rightarrow> npfloat list \<Rightarrow> npfloat list" where
  "cumsum_skipna acc [] = []"
| "cumsum_skipna acc (x # xs) =
     (if x = NaN then NaN # cumsum_skipna acc xs
      else fadd acc x # cumsum_skipna (fadd acc x) xs)"

record backtest_result =
  bt_position :: "int list"
  bt_spread_diff :: "npfloat list"
  bt_pnl :: "npfloat list"
  bt_cum_pnl :: "npfloat list"

definition backtest :: "real \<Rightarrow> bt_row list \<Rightarrow> backtest_result" where
  "backtest threshold rows =
     (let positions = backtest_positions threshold rows;
          spread_diff = map fillna0 (series_diff (map spread rows));
          pnl = map (\<lambda>(p, d). fmul p d) (zip (map fillna0 (series_shift positions)) spread_diff)
      in \<lparr>bt_position = positions, bt_spread_diff = spread_diff, bt_pnl = pnl,
          bt_cum_pnl = cumsum_skipna (Fin 0) pnl\<rparr>)"

text \<open>
  The position state machine of the specification (section 4.2), written from its
  words, to compare the backtest with: on each pair of a z-score and a price, FLAT opens
  SHORT when \<open>z \<ge> entry_threshold\<close> and LONG when \<open>z \<le> -entry_threshold\<close>; LONG closes
  when \<open>z \<ge> long_exit_threshold\<close> and SHORT when \<open>z \<le> short_exit_threshold\<close>, emitting
  a trade whose profit is reduced by twice the transaction cost.
\<close>

datatype spec_position = FLAT | LONG npfloat | SHORT npfloat

record spec_params =
  entry_threshold :: real
  long_exit_threshold :: real
  short_exit_threshold :: real
  transaction_cost :: real

record spec_trade =
  spec_type :: string
  spec_entry_price :: npfloat
  spec_exit_price :: npfloat
  spec_profit :: npfloat

fun spec_step :: "spec_params \<Rightarrow> spec_position \<Rightarrow> npfloat \<times> npfloat
    \<Rightarrow> spec_position \<times> spec_trade option" where
  "spec_step cfg FLAT (z, price) =
     (if fle (Fin (entry_threshold cfg)) z then (SHORT price, None)
      else if fle z (Fin (- entry_threshold cfg)) then (LONG price, None)
      else (FLAT, None))"
| "spec_step cfg (LONG entry) (z, price) =
     (if fle (Fin (long_exit_threshold cfg)) z
      then (FLAT, Some \<lparr>spec_type = ''LONG'', spec_entry_price = entry, spec_exit_price = price,
                         spec_profit = fsub (fsub price entry) (Fin (2 * transaction_cost cfg))\<rparr>)
      else (LONG entry, None))"
| "spec_step cfg (SHORT entry) (z, price) =
     (if fle z (Fin (short_exit_threshold cfg))
      then (FLAT, Some \<lparr>spec_type = ''SHORT'', spec_entry_price = entry, spec_exit_price = price,
                         spec_profit = fsub (fsub entry price) (Fin (2 * transaction_cost cfg))\<rparr>)
      else (SHORT entry, None))"

fun spec_code :: "spec_position \<Rightarrow> int" where
  "spec_code FLAT = 0"
| "spec_code (LONG _) = 1"
| "spec_code (SHORT _) = - 1"

text \<open>The z-score source of the variant: \<open>(spread - rolling_mean) / rolling_std\<close>.\<close>

definition rolling_z :: "bt_row \<Rightarrow> npfloat" where
  "rolling_z row = fdiv (fsub (spread row) (rolling_mean row)) (rolling_std row)"

fun spec_positions :: "spec_params \<Rightarrow> spec_position \<Rightarrow> bt_row list \<Rightarrow> int list" where
  "spec_positions cfg st [] = []"
| "spec_positions cfg st (row # rows) =
     (let st' = fst (spec_step cfg st (rolling_z row, spread row))
      in spec_code st' # spec_positions cfg st' rows)"

section \<open>Properties of the z-score helper\<close>

text \<open>
  C10. \<open>compute_z_score\<close> never raises: with a zero standard deviation it returns
  exactly 0, and with any other standard deviation it returns
  \<open>(value - mean) / std\<close>.
\<close>

theorem compute_z_score_total:
  "compute_z_score v m 0 = Inr 0
   \<and> (s \<noteq> 0 \<longrightarrow> compute_z_score v m s = Inr ((v - m) / s))
   \<and> (\<exists>r. compute_z_score v m s = Inr r)"
  by (simp add: compute_z_score_def py_truediv_def)

theorem compute_z_score_total_witness:
  "compute_z_score 5 1 0 = Inr 0 \<and> compute_z_score 5 1 2 = Inr 2"
  using compute_z_score_total [of 5 1 2] by simp

section \<open>Properties of the Bayesian signal generator\<close>

text \<open>
  The floor on the window variance works for a window of at least two values; a window
  of one value has the unbiased variance \<open>0/0\<close>, which Python's \<open>max\<close> keeps.  A prior
  variance of zero is not floored and drives \<open>sigma_post\<close> to zero.
\<close>

lemma window_var_floored:
  assumes "2 \<le> length xs"
  shows "\<exists>v. py_max (np_var 1 xs) (Fin (1 / 10 ^ 8)) = Fin v \<and> 1 / 10 ^ 8 \<le> v"
proof -
  have ne: "xs \<noteq> []" using assms by auto
  have "real (length xs - 1) \<noteq> 0" using assms by simp
  then have "np_var 1 xs = Fin (sq_dev xs / real (length xs - 1))"
    using ne by (simp add: np_var_def)
  then obtain a where a: "np_var 1 xs = Fin a" by blast
  show ?thesis
  proof (cases "a < 1 / 10 ^ 8")
    case True
    then have "py_max (np_var 1 xs) (Fin (1 / 10 ^ 8)) = Fin (1 / 10 ^ 8)"
      unfolding a py_max_def by simp
    then show ?thesis by blast
  next
    case False
    then have "py_max (np_var 1 xs) (Fin (1 / 10 ^ 8)) = Fin a"
      unfolding a py_max_def by simp
    with False show ?thesis by auto
  qed
qed

lemma window_var_single: "py_max (np_var 1 [x]) (Fin (1 / 10 ^ 8)) = NaN"
  by (simp add: np_var_def sq_dev_def mean_real_def py_max_def signed_inf_def)

lemma sigma_post_zero_prior_variance:
  assumes "0 < v"
  shows "fsqrt (fdiv (Fin 1) (fadd (fdiv (Fin w) (Fin v)) (fdiv (Fin 1) (Fin 0)))) = Fin 0"
  using assms by (simp add: signed_inf_def)

lemma slice_bound_nonneg: "0 \<le> i \<Longrightarrow> i \<le> int (length xs) \<Longrightarrow> slice_bound xs i = nat i"
  by (simp add: slice_bound_def)

lemma slice_bound_neg: "i < 0 \<Longrightarrow> - i \<le> int (length xs) \<Longrightarrow> slice_bound xs i = length xs - nat (- i)"
  by (auto simp add: slice_bound_def Let_def)

lemma get_window_data_drop:
  assumes "0 < W" "window_size s = int W" "W \<le> length (history s)"
  shows "get_window_data s = drop (length (history s) - W) (history s)"
  using assms by (simp add: get_window_data_def py_slice_from_def slice_bound_neg)

lemma get_prior_data_take_drop:
  assumes "window_size s = int W" "prior_window s = int P" "W \<le> length (history s)"
  shows "get_prior_data s =
         take (length (history s) - W - (length (history s) - P - W))
              (drop (length (history s) - P - W) (history s))"
proof -
  let ?n = "length (history s)"
  have a: "max 0 (int ?n - int P - int W) = int (?n - P - W)" by linarith
  have b: "int ?n - int W = int (?n - W)" using assms(3) by linarith
  show ?thesis
    unfolding get_prior_data_def Let_def py_slice_def assms(1,2) a b
    by (simp add: slice_bound_nonneg)
qed

text \<open>
  The call unfolded: the slices of \<open>_get_prior_data\<close> and \<open>_get_window_data\<close> as
  segments of the history \<open>h\<close> after the append (of length \<open>n\<close>), and the posterior in
  float arithmetic, for every \<open>window_size = W > 0\<close> and \<open>prior_window = P > 0\<close>.
\<close>

lemma update_parameters_slices:
  assumes "0 < W" and "0 < P" and "window_size s = int W" and "prior_window s = int P"
  shows
   "(let h = history s @ [x]; n = length h in
      fst (update_parameters s x) = s\<lparr>history := h\<rparr> \<and>
      (n < W + 2 \<longrightarrow> snd (update_parameters s x) = None) \<and>
      (W + 2 \<le> n \<longrightarrow>
         snd (update_parameters s x) =
           (let prior_segment = take (n - W - (n - P - W)) (drop (n - P - W) h);
                mu0 = np_mean prior_segment;
                tau2 = np_var 0 prior_segment;
                window_segment = drop (n - W) h;
                x_bar = np_mean window_segment;
                window_var = py_max (np_var 1 window_segment) (Fin (1 / 10 ^ 8));
                sigma_post2 = fdiv (Fin 1) (fadd (fdiv (Fin (real W)) window_var) (fdiv (Fin 1) tau2));
                mu_post = fmul sigma_post2
                            (fadd (fdiv (fmul (Fin (real W)) x_bar) window_var) (fdiv mu0 tau2));
                sigma_post = fsqrt sigma_post2;
                z = fdiv (fsub (Fin x) mu_post) sigma_post
            in Some (z, mu_post, sigma_post))
         \<and> length (drop (n - W) h) = W
         \<and> length (take (n - W - (n - P - W)) (drop (n - P - W) h)) = min P (n - W)))"
proof -
  let ?s' = "s\<lparr>history := history s @ [x]\<rparr>"
  let ?h = "history s @ [x]"
  have fst_eq: "fst (update_parameters s x) = ?s'"
    by (simp add: update_parameters_def Let_def)
  have warm: "snd (update_parameters s x) = None" if "length ?h < W + 2"
    using that assms(3) by (simp add: update_parameters_def Let_def)
  have post: "snd (update_parameters s x) =
           (let prior_segment = take (length ?h - W - (length ?h - P - W)) (drop (length ?h - P - W) ?h);
                mu0 = np_mean prior_segment;
                tau2 = np_var 0 prior_segment;
                window_segment = drop (length ?h - W) ?h;
                x_bar = np_mean window_segment;
                window_var = py_max (np_var 1 window_segment) (Fin (1 / 10 ^ 8));
                sigma_post2 = fdiv (Fin 1) (fadd (fdiv (Fin (real W)) window_var) (fdiv (Fin 1) tau2));
                mu_post = fmul sigma_post2
                            (fadd (fdiv (fmul (Fin (real W)) x_bar) window_var) (fdiv mu0 tau2));
                sigma_post = fsqrt sigma_post2;
                z = fdiv (fsub (Fin x) mu_post) sigma_post
            in Some (z, mu_post, sigma_post))"
    and lens: "length (drop (length ?h - W) ?h) = W"
              "length (take (length ?h - W - (length ?h - P - W)) (drop (length ?h - P - W) ?h)) = min P (length ?h - W)"
    if ge: "W + 2 \<le> length ?h"
  proof -
    have wle: "W \<le> length (history ?s')" using ge by simp
    have w: "get_window_data ?s' = drop (length ?h - W) ?h"
      using get_window_data_drop [of W ?s'] assms(1,3) wle by simp
    have p: "get_prior_data ?s' =
       take (length ?h - W - (length ?h - P - W)) (drop (length ?h - P - W) ?h)"
      using get_prior_data_take_drop [of ?s' W P] assms(3,4) wle by simp
    show l1: "length (drop (length ?h - W) ?h) = W" using ge by simp
    show "length (take (length ?h - W - (length ?h - P - W)) (drop (length ?h - P - W) ?h)) = min P (length ?h - W)"
    proof -
      have "min (n - W - (n - P - W)) (n - (n - P - W)) = min P (n - W)" if "W + 2 \<le> n" for n :: nat
        using that by (simp add: min_def)
      from this [OF ge] show ?thesis by (simp only: length_take length_drop min.commute)
    qed
    have nwarm: "\<not> int (length (history ?s')) < window_size ?s' + 2"
      using ge assms(3) by simp
    show "snd (update_parameters s x) = (let prior_segment = take (length ?h - W - (length ?h - P - W)) (drop (length ?h - P - W) ?h);
                mu0 = np_mean prior_segment;
                tau2 = np_var 0 prior_segment;
                window_segment = drop (length ?h - W) ?h;
                x_bar = np_mean window_segment;
                window_var = py_max (np_var 1 window_segment) (Fin (1 / 10 ^ 8));
                sigma_post2 = fdiv (Fin 1) (fadd (fdiv (Fin (real W)) window_var) (fdiv (Fin 1) tau2));
                mu_post = fmul sigma_post2
                            (fadd (fdiv (fmul (Fin (real W)) x_bar) window_var) (fdiv mu0 tau2));
                sigma_post = fsqrt sigma_post2;
                z = fdiv (fsub (Fin x) mu_post) sigma_post
            in Some (z, mu_post, sigma_post))"
      unfolding update_parameters_def Let_def if_not_P [OF nwarm] w p l1 by simp
  qed
  show ?thesis
    unfolding Let_def using fst_eq warm post lens unfolding Let_def by blast
qed

lemma py_max_Fin: "py_max (Fin a) (Fin b) = Fin (max a b)"
  by (simp add: py_max_def max_def)

lemma np_mean_Fin:
  "xs \<noteq> [] \<Longrightarrow> np_mean xs = Fin (sum_list xs / real (length xs))"
  by (simp add: np_mean_def mean_real_def)

lemma np_var_population_Fin:
  "xs \<noteq> [] \<Longrightarrow>
   np_var 0 xs
     = Fin (sum_list (map (\<lambda>y. (y - sum_list xs / real (length xs))\<^sup>2) xs) / real (length xs))"
  by (simp add: np_var_def sq_dev_def mean_real_def)

lemma np_var_unbiased_Fin:
  "2 \<le> length xs \<Longrightarrow>
   np_var 1 xs
     = Fin (sum_list (map (\<lambda>y. (y - sum_list xs / real (length xs))\<^sup>2) xs)
            / real (length xs - 1))"
  by (auto simp add: np_var_def sq_dev_def mean_real_def)

lemma posterior_finite:
  assumes wv: "0 < wv" and t: "0 < tau2" and w: "0 < w"
  shows "(let sigma_post2 = fdiv (Fin 1) (fadd (fdiv (Fin w) (Fin wv)) (fdiv (Fin 1) (Fin tau2)));
              mu_post = fmul sigma_post2
                          (fadd (fdiv (fmul (Fin w) (Fin x_bar)) (Fin wv)) (fdiv (Fin mu0) (Fin tau2)));
              sigma_post = fsqrt sigma_post2;
              z = fdiv (fsub (Fin x) mu_post) sigma_post
          in Some (z, mu_post, sigma_post))
         = (let sigma_post2 = 1 / (w / wv + 1 / tau2);
                mu_post = sigma_post2 * (w * x_bar / wv + mu0 / tau2);
                sigma_post = sqrt sigma_post2
            in Some (Fin ((x - mu_post) / sigma_post), Fin mu_post, Fin sigma_post))"
    and "0 < sqrt (1 / (w / wv + 1 / tau2))"
proof -
  let ?D = "w / wv + 1 / tau2"
  have D: "0 < ?D" using wv t w by (simp add: add_pos_pos)
  then have s2: "0 < 1 / ?D" by simp
  then show sq: "0 < sqrt (1 / ?D)" by simp
  have n1: "wv \<noteq> 0" "tau2 \<noteq> 0" "?D \<noteq> 0" using wv t D by auto
  have n2: "\<not> 1 / ?D < 0" using s2 by linarith
  have n3: "sqrt (1 / ?D) \<noteq> 0" using sq by linarith
  have a: "fdiv (Fin 1) (fadd (fdiv (Fin w) (Fin wv)) (fdiv (Fin 1) (Fin tau2))) = Fin (1 / ?D)"
    using n1 by simp
  have b: "fadd (fdiv (fmul (Fin w) (Fin x_bar)) (Fin wv)) (fdiv (Fin mu0) (Fin tau2))
           = Fin (w * x_bar / wv + mu0 / tau2)"
    using n1 by simp
  have c: "fsqrt (Fin (1 / ?D)) = Fin (sqrt (1 / ?D))" using n2 by simp
  have d: "fdiv (fsub (Fin x) (Fin m)) (Fin (sqrt (1 / ?D))) = Fin ((x - m) / sqrt (1 / ?D))" for m
    using n3 by (simp add: fsub_def)
  show "(let sigma_post2 = fdiv (Fin 1) (fadd (fdiv (Fin w) (Fin wv)) (fdiv (Fin 1) (Fin tau2)));
              mu_post = fmul sigma_post2
                          (fadd (fdiv (fmul (Fin w) (Fin x_bar)) (Fin wv)) (fdiv (Fin mu0) (Fin tau2)));
              sigma_post = fsqrt sigma_post2;
              z = fdiv (fsub (Fin x) mu_post) sigma_post
          in Some (z, mu_post, sigma_post))
         = (let sigma_post2 = 1 / ?D;
                mu_post = sigma_post2 * (w * x_bar / wv + mu0 / tau2);
                sigma_post = sqrt sigma_post2
            in Some (Fin ((x - mu_post) / sigma_post), Fin mu_post, Fin sigma_post))"
    unfolding Let_def a b c by (simp only: fmul.simps d)
qed

text \<open>
  C1 (as the code has it). With \<open>window_size = W \<ge> 2\<close> and \<open>prior_window = P > 0\<close>, a
  call \<open>update_parameters x\<close> appends \<open>x\<close> to the history \<open>h\<close> (of length \<open>n\<close> after
  the append).  While \<open>n < W + 2\<close> it returns the warm-up result.  Otherwise the window
  \<open>h[-W:]\<close> holds exactly \<open>W\<close> values, the prior segment \<open>h[max(0, n-P-W) : n-W]\<close> holds
  \<open>min P (n - W)\<close> values, and the window variance (unbiased, floored) is a finite value
  \<open>\<ge> 1e-8\<close>.  With \<open>mu0\<close> and \<open>tau2\<close> the mean and population variance of the prior
  segment and \<open>x_bar\<close> the mean of the window, whenever \<open>tau2 > 0\<close> the call returns the
  finite values \<open>(z, mu_post, sigma_post)\<close> with
  \<open>sigma_post2 = 1 / (W / window_var + 1 / tau2)\<close>,
  \<open>mu_post = sigma_post2 * (W * x_bar / window_var + mu0 / tau2)\<close>,
  \<open>sigma_post = sqrt sigma_post2 > 0\<close> and \<open>z = (x - mu_post) / sigma_post\<close>.
\<close>

theorem update_parameters_contract:
  assumes "2 \<le> W" and "0 < P" and "window_size s = int W" and "prior_window s = int P"
  shows
   "(let h = history s @ [x];
         n = length h;
         prior_segment = take (n - W - (n - P - W)) (drop (n - P - W) h);
         window_segment = drop (n - W) h;
         mu0 = sum_list prior_segment / real (length prior_segment);
         tau2 = sum_list (map (\<lambda>y. (y - mu0)\<^sup>2) prior_segment) / real (length prior_segment);
         x_bar = sum_list window_segment / real W;
         window_var =
           max (sum_list (map (\<lambda>y. (y - x_bar)\<^sup>2) window_segment) / real (W - 1)) (1 / 10 ^ 8);
         sigma_post2 = 1 / (real W / window_var + 1 / tau2);
         mu_post = sigma_post2 * (real W * x_bar / window_var + mu0 / tau2);
         sigma_post = sqrt sigma_post2;
         z = (x - mu_post) / sigma_post
     in fst (update_parameters s x) = s\<lparr>history := h\<rparr>
        \<and> (n < W + 2 \<longrightarrow> snd (update_parameters s x) = None)
        \<and> (W + 2 \<le> n \<longrightarrow>
              length window_segment = W
            \<and> length prior_segment = min P (n - W)
            \<and> 1 / 10 ^ 8 \<le> window_var
            \<and> (0 < tau2 \<longrightarrow>
                  snd (update_parameters s x) = Some (Fin z, Fin mu_post, Fin sigma_post)
                \<and> 0 < sigma_post)))"
proof -
  let ?h = "history s @ [x]"
  let ?n = "length ?h"
  let ?prior = "take (?n - W - (?n - P - W)) (drop (?n - P - W) ?h)"
  let ?window = "drop (?n - W) ?h"
  let ?mu0 = "sum_list ?prior / real (length ?prior)"
  let ?tau2 = "sum_list (map (\<lambda>y. (y - ?mu0)\<^sup>2) ?prior) / real (length ?prior)"
  let ?x_bar = "sum_list ?window / real W"
  let ?wv = "max (sum_list (map (\<lambda>y. (y - ?x_bar)\<^sup>2) ?window) / real (W - 1)) (1 / 10 ^ 8)"
  have W0: "0 < W" using assms(1) by simp
  note base = update_parameters_slices [OF W0 assms(2,3,4), of x, unfolded Let_def]
  have fst_eq: "fst (update_parameters s x) = s\<lparr>history := ?h\<rparr>" using base by blast
  have warm: "?n < W + 2 \<Longrightarrow> snd (update_parameters s x) = None" using base by blast
  have wvge: "1 / 10 ^ 8 \<le> ?wv" by (rule max.cobounded2)
  have wvpos: "0 < ?wv"
  proof -
    have "(0::real) < 1 / 10 ^ 8" by simp
    then show ?thesis using wvge by (rule less_le_trans)
  qed
  have past: "length ?window = W \<and> length ?prior = min P (?n - W)
      \<and> (0 < ?tau2 \<longrightarrow>
            snd (update_parameters s x) =
              (let sigma_post2 = 1 / (real W / ?wv + 1 / ?tau2);
                   mu_post = sigma_post2 * (real W * ?x_bar / ?wv + ?mu0 / ?tau2);
                   sigma_post = sqrt sigma_post2
               in Some (Fin ((x - mu_post) / sigma_post), Fin mu_post, Fin sigma_post))
          \<and> 0 < sqrt (1 / (real W / ?wv + 1 / ?tau2)))"
    if ge: "W + 2 \<le> ?n"
  proof -
    have lw: "length ?window = W" using base ge by blast
    have lp: "length ?prior = min P (?n - W)" using base ge by blast
    have nw: "0 < ?n - W" using ge by linarith
    from assms(2) nw have "0 < min P (?n - W)" by (simp only: min_less_iff_conj simp_thms)
    then have lpos: "0 < length ?prior" by (simp only: lp)
    have pne: "?prior \<noteq> []" using lpos by (rule length_greater_0_conv [THEN iffD1])
    have "0 < length ?window" using W0 by (simp only: lw)
    then have wne: "?window \<noteq> []" by (rule length_greater_0_conv [THEN iffD1])
    have m0: "np_mean ?prior = Fin ?mu0" using pne by (rule np_mean_Fin)
    have t2: "np_var 0 ?prior = Fin ?tau2" using pne by (rule np_var_population_Fin)
    have xb: "np_mean ?window = Fin ?x_bar" using np_mean_Fin [OF wne] unfolding lw .
    have lw2: "2 \<le> length ?window" using assms(1) by (simp only: lw)
    have wvar: "np_var 1 ?window
                = Fin (sum_list (map (\<lambda>y. (y - ?x_bar)\<^sup>2) ?window) / real (W - 1))"
      using np_var_unbiased_Fin [OF lw2] unfolding lw .
    have pm: "py_max (np_var 1 ?window) (Fin (1 / 10 ^ 8)) = Fin ?wv"
      unfolding wvar by (rule py_max_Fin)
    have res: "snd (update_parameters s x) =
       (let sigma_post2 = fdiv (Fin 1) (fadd (fdiv (Fin (real W)) (Fin ?wv)) (fdiv (Fin 1) (Fin ?tau2)));
            mu_post = fmul sigma_post2
                        (fadd (fdiv (fmul (Fin (real W)) (Fin ?x_bar)) (Fin ?wv)) (fdiv (Fin ?mu0) (Fin ?tau2)));
            sigma_post = fsqrt sigma_post2;
            z = fdiv (fsub (Fin x) mu_post) sigma_post
        in Some (z, mu_post, sigma_post))"
    proof -
      have "snd (update_parameters s x) =
           (Some (fdiv (fsub (Fin x)
                    (fmul (fdiv (Fin 1) (fadd (fdiv (Fin (real W)) (py_max (np_var 1 ?window) (Fin (1 / 10 ^ 8))))
                                              (fdiv (Fin 1) (np_var 0 ?prior))))
                          (fadd (fdiv (fmul (Fin (real W)) (np_mean ?window)) (py_max (np_var 1 ?window) (Fin (1 / 10 ^ 8))))
                                (fdiv (np_mean ?prior) (np_var 0 ?prior)))))
                    (fsqrt (fdiv (Fin 1) (fadd (fdiv (Fin (real W)) (py_max (np_var 1 ?window) (Fin (1 / 10 ^ 8))))
                                               (fdiv (Fin 1) (np_var 0 ?prior))))),
                  fmul (fdiv (Fin 1) (fadd (fdiv (Fin (real W)) (py_max (np_var 1 ?window) (Fin (1 / 10 ^ 8))))
                                           (fdiv (Fin 1) (np_var 0 ?prior))))
                       (fadd (fdiv (fmul (Fin (real W)) (np_mean ?window)) (py_max (np_var 1 ?window) (Fin (1 / 10 ^ 8))))
                             (fdiv (np_mean ?prior) (np_var 0 ?prior))),
                  fsqrt (fdiv (Fin 1) (fadd (fdiv (Fin (real W)) (py_max (np_var 1 ?window) (Fin (1 / 10 ^ 8))))
                                            (fdiv (Fin 1) (np_var 0 ?prior))))))"
        using base ge by blast
      then show ?thesis unfolding pm t2 m0 xb Let_def .
    qed
    have Wpos: "0 < real W" using W0 by simp
    show ?thesis
    proof (intro conjI impI)
      show "length ?window = W" by (rule lw)
      show "length ?prior = min P (?n - W)" by (rule lp)
    next
      assume tp: "0 < ?tau2"
      show "snd (update_parameters s x) =
              (let sigma_post2 = 1 / (real W / ?wv + 1 / ?tau2);
                   mu_post = sigma_post2 * (real W * ?x_bar / ?wv + ?mu0 / ?tau2);
                   sigma_post = sqrt sigma_post2
               in Some (Fin ((x - mu_post) / sigma_post), Fin mu_post, Fin sigma_post))"
        unfolding res by (rule posterior_finite(1) [OF wvpos tp Wpos])
    next
      assume tp: "0 < ?tau2"
      show "0 < sqrt (1 / (real W / ?wv + 1 / ?tau2))"
        by (rule posterior_finite(2) [OF wvpos tp Wpos])
    qed
  qed
  show ?thesis
    unfolding Let_def using fst_eq warm wvge past unfolding Let_def by blast
qed

theorem update_parameters_contract_witness:
  "fst (update_parameters \<lparr>window_size = 2, prior_window = 2, position = None, history = [1, 2, 3]\<rparr> 5)
     = \<lparr>window_size = 2, prior_window = 2, position = None, history = [1, 2, 3, 5]\<rparr>
   \<and> snd (update_parameters \<lparr>window_size = 2, prior_window = 2, position = None, history = [1, 2, 3]\<rparr> 5) = Some (Fin (3 / sqrt (1 / 5)), Fin 2, Fin (sqrt (1 / 5)))
   \<and> 0 < sqrt (1 / 5 :: real)"
proof -
  have l: "length (history \<lparr>window_size = 2, prior_window = 2, position = None, history = [1, 2, 3]\<rparr> @ [5]) = 4" by simp
  have pr: "take (4 - 2 - (4 - 2 - 2)) (drop (4 - 2 - 2) (history \<lparr>window_size = 2, prior_window = 2, position = None, history = [1, 2, 3]\<rparr> @ [5])) = [1, 2 :: real]"
    by simp
  have wi: "drop (4 - 2) (history \<lparr>window_size = 2, prior_window = 2, position = None, history = [1, 2, 3]\<rparr> @ [5::real]) = [3, 5]" by simp
  note t = update_parameters_contract [of 2 2 "\<lparr>window_size = 2, prior_window = 2, position = None, history = [1, 2, 3]\<rparr>" 5,
      unfolded Let_def l pr wi]
  show ?thesis using t by (simp add: power2_eq_square)
qed

text \<open>
  C1 (as stated) fails for \<open>window_size = 1\<close>: the unbiased variance of a window of one
  value is \<open>0/0\<close>, \<open>max(nan, 1e-8)\<close> keeps the NaN, and the call returns
  \<open>(nan, nan, nan)\<close> although the prior segment \<open>[2, 3]\<close> has a positive variance.
\<close>

theorem update_parameters_single_window:
  "get_window_data (fst (update_parameters \<lparr>window_size = 1, prior_window = 2, position = None, history = [1, 2, 3]\<rparr> 5)) = [5]
   \<and> get_prior_data (fst (update_parameters \<lparr>window_size = 1, prior_window = 2, position = None, history = [1, 2, 3]\<rparr> 5)) = [2, 3]
   \<and> py_max (np_var 1 [5]) (Fin (1 / 10 ^ 8)) = NaN
   \<and> snd (update_parameters \<lparr>window_size = 1, prior_window = 2, position = None, history = [1, 2, 3]\<rparr> 5) = Some (NaN, NaN, NaN)"
  by (simp add: update_parameters_def get_prior_data_def get_window_data_def py_slice_def
      py_slice_from_def slice_bound_def np_mean_def np_var_def mean_real_def sq_dev_def
      py_max_def fsub_def signed_inf_def Let_def power2_eq_square)

text \<open>
  C2. The prior variance \<open>tau2\<close> is used as it is computed: with \<open>window_size = 2\<close>,
  \<open>prior_window = 2\<close> and the observations \<open>0, 0, 0, 0\<close> the fourth call is past
  warm-up, its prior segment \<open>[0, 0]\<close> has variance zero, \<open>1 / tau2\<close> is a division by
  zero, and the call returns \<open>(nan, nan, 0.0)\<close>: \<open>sigma_post\<close> is zero.
\<close>

theorem update_parameters_constant_prior:
  "snd (update_parameters
          \<lparr>window_size = 2, prior_window = 2, position = None, history = [0, 0, 0]\<rparr> 0)
   = Some (NaN, NaN, Fin 0)"
  by (simp add: update_parameters_def get_prior_data_def get_window_data_def py_slice_def
      py_slice_from_def slice_bound_def np_mean_def np_var_def mean_real_def sq_dev_def
      py_max_def fsub_def signed_inf_def Let_def)

text \<open>
  C9 (as the code has it). The history is append-only: after feeding the observations
  \<open>xs\<close> the history is the old history followed by \<open>xs\<close>, so its length grows by one
  with every call.
\<close>

theorem run_updates_history: "history (run_updates s xs) = history s @ xs"
  by (induction xs arbitrary: s) (simp_all add: update_parameters_def Let_def)

text \<open>
  C9 (as stated) fails: for the default instance (\<open>window_size = 40\<close>,
  \<open>prior_window = 120\<close>) no number bounds the length of the history over all streams.
\<close>

theorem history_unbounded:
  "\<not> (\<exists>B. \<forall>xs. length (history (run_updates (strategy_init 40 120) xs)) \<le> B)"
proof
  assume "\<exists>B. \<forall>xs. length (history (run_updates (strategy_init 40 120) xs)) \<le> B"
  then obtain B where b: "\<forall>xs. length (history (run_updates (strategy_init 40 120) xs)) \<le> B" by blast
  have h: "history (run_updates s xs) = history s @ xs" for s xs
    by (induction xs arbitrary: s) (simp_all add: update_parameters_def Let_def)
  from b have "length (history (run_updates (strategy_init 40 120) (replicate (Suc B) 0))) \<le> B" by blast
  then have "length (history (strategy_init 40 120) @ replicate (Suc B) (0::real)) \<le> B"
    by (simp only: h)
  then show False by (simp add: strategy_init_def)
qed

section \<open>Properties of the risk analyzer\<close>

lemma analyzer_init_empty:
  "analyzer_init [] capital =
     \<lparr>trades = [], initial_capital = capital, df_profit = None,
      equity_curve = None, returns = None, helper_methods = (\<lambda>name. None)\<rparr>"
  by (simp add: analyzer_init_def process_trades_def)

lemma helper_methods_init: "helper_methods (analyzer_init ts capital) = (\<lambda>name. None)"
  by (simp add: analyzer_init_def process_trades_def Let_def)

text \<open>
  C3. With no trade, \<open>_process_trades\<close> assigns neither \<open>returns\<close> nor \<open>equity_curve\<close>,
  and every statistic starts by reading one of them: each VaR method, the CVaR, the
  drawdown statistics and the report raise \<open>AttributeError\<close> instead of returning a
  sentinel value.
\<close>

theorem empty_trades_raise:
  "compute_strategy_var ppf (analyzer_init [] capital) ''historical'' c
     = Inl (AttributeError ''returns'')
   \<and> compute_strategy_var ppf (analyzer_init [] capital) ''gaussian'' c
     = Inl (AttributeError ''returns'')
   \<and> compute_strategy_var ppf (analyzer_init [] capital) ''cornish-fisher'' c
     = Inl (AttributeError ''_compute_skew'')
   \<and> compute_strategy_cvar ppf (analyzer_init [] capital) c = Inl (AttributeError ''returns'')
   \<and> compute_trade_drawdowns (analyzer_init [] capital) = Inl (AttributeError ''equity_curve'')
   \<and> generate_risk_report ppf (analyzer_init [] capital) = Inl (AttributeError ''returns'')"
  by (simp add: analyzer_init_empty compute_strategy_var_def historical_var_def parametric_var_def
      cornish_fisher_var_def call_helper_def compute_strategy_cvar_def compute_trade_drawdowns_def
      generate_risk_report_def ebind_def get_attr_def)

text \<open>
  C4. For every trade sequence, empty or not, and every confidence level, the
  Cornish-Fisher VaR raises \<open>AttributeError\<close>: its first statement calls
  \<open>self._compute_skew()\<close>, a method the class does not define.
\<close>

theorem cornish_fisher_raises:
  "compute_strategy_var ppf (analyzer_init ts capital) ''cornish-fisher'' c
     = Inl (AttributeError ''_compute_skew'')"
  by (simp add: compute_strategy_var_def cornish_fisher_var_def call_helper_def
      helper_methods_init ebind_def)

text \<open>
  C5. With \<open>initial_capital = 100\<close> and the profits \<open>10, -10\<close> the equity curve is
  \<open>110, 100\<close> and the drawdown series \<open>0, -1/11\<close>: its only transition enters a
  drawdown and none leaves one, yet \<open>recovery_time\<close> is 1.  The statistic counts the
  transitions from a non-negative to a negative drawdown (\<open>np.diff(...) == 1\<close>), not the
  recoveries.
\<close>

theorem recovery_counts_onsets:
  "compute_trade_drawdowns (analyzer_init [\<lparr>trade_type = ''long'', profit = 10\<rparr>, \<lparr>trade_type = ''short'', profit = - 10\<rparr>] 100)
   = Inr \<lparr>max_drawdown = Fin (- 1 / 11), drawdown_duration = 1 / 2, recovery_time = 1\<rparr>"
  by (simp add: compute_trade_drawdowns_def analyzer_init_def process_trades_def cumsum_def
      ebind_def get_attr_def drawdown_series_def maximum_accumulate_def series_min_def fmin_def
      compute_drawdown_duration_def compute_recovery_time_def bool_mean_def Let_def)

lemma accumulate_from_bounds:
  "(e, r) \<in> set (zip xs (accumulate_from m xs)) \<Longrightarrow> e \<le> r \<and> m \<le> r"
proof (induction xs arbitrary: m)
  case Nil
  then show ?case by simp
next
  case (Cons x xs)
  from Cons.prems have "(e, r) = (x, max m x) \<or> (e, r) \<in> set (zip xs (accumulate_from (max m x) xs))"
    by simp
  then show ?case
  proof
    assume "(e, r) = (x, max m x)"
    then show ?thesis by auto
  next
    assume "(e, r) \<in> set (zip xs (accumulate_from (max m x) xs))"
    from Cons.IH [OF this] show ?thesis by auto
  qed
qed

lemma maximum_accumulate_bounds:
  assumes "(e, r) \<in> set (zip (x # ys) (maximum_accumulate (x # ys)))"
  shows "e \<le> r \<and> x \<le> r"
proof -
  from assms have "(e, r) = (x, x) \<or> (e, r) \<in> set (zip ys (accumulate_from x ys))"
    by (simp add: maximum_accumulate_def)
  then show ?thesis using accumulate_from_bounds [of e r ys x] by auto
qed

lemma drawdown_series_nonpos:
  assumes "0 < x" and "d \<in> set (drawdown_series (x # ys))"
  shows "\<exists>v. d = Fin v \<and> v \<le> 0"
proof -
  from assms(2) obtain e r where er: "(e, r) \<in> set (zip (x # ys) (maximum_accumulate (x # ys)))"
    and d: "d = fdiv (Fin (e - r)) (Fin r)"
    unfolding drawdown_series_def by auto
  from maximum_accumulate_bounds [OF er] assms(1) have le: "e \<le> r" and pos: "0 < r" by auto
  have "d = Fin ((e - r) / r)" using d pos by simp
  moreover have "(e - r) / r \<le> 0" using le pos by (simp add: divide_le_0_iff)
  ultimately show ?thesis by blast
qed

lemma foldl_fmin_mem: "foldl fmin y ys \<in> set (y # ys)"
proof (induction ys arbitrary: y)
  case Nil
  then show ?case by simp
next
  case (Cons z zs)
  have "foldl fmin (fmin y z) zs \<in> set (fmin y z # zs)" by (rule Cons.IH)
  moreover have "fmin y z = y \<or> fmin y z = z" by (simp add: fmin_def)
  ultimately show ?case by auto
qed

lemma series_min_mem:
  assumes "\<exists>d \<in> set ds. d \<noteq> NaN"
  shows "series_min ds \<in> set ds"
proof -
  from assms have ne: "filter (\<lambda>x. x \<noteq> NaN) ds \<noteq> []" by (simp add: filter_empty_conv)
  then obtain y ys where f: "filter (\<lambda>x. x \<noteq> NaN) ds = y # ys" by (cases "filter (\<lambda>x. x \<noteq> NaN) ds") auto
  have "series_min ds = foldl fmin y ys" by (simp add: series_min_def f)
  then have "series_min ds \<in> set (filter (\<lambda>x. x \<noteq> NaN) ds)"
    using foldl_fmin_mem [of y ys] f by simp
  then show ?thesis by simp
qed

lemma length_cumsum_from: "length (cumsum_from acc xs) = length xs"
  by (induction xs arbitrary: acc) simp_all

lemma equity_curve_init:
  "equity_curve (analyzer_init (t # ts) capital)
     = Some ((capital + profit t) # map (\<lambda>c. capital + c) (cumsum_from (profit t) (map profit ts)))"
  by (simp add: analyzer_init_def process_trades_def Let_def cumsum_def)


text \<open>
  C6 (as the code has it). When the first equity value \<open>initial_capital + profit\<close> of
  the first trade is positive, the running maximum is positive throughout, so every
  drawdown is a finite value \<open>\<le> 0\<close> and so is \<open>max_drawdown\<close>.
\<close>

theorem drawdowns_nonpositive:
  assumes "ts \<noteq> []" and "0 < capital + profit (hd ts)"
  shows "\<exists>eq st.
           equity_curve (analyzer_init ts capital) = Some eq
         \<and> length eq = length ts
         \<and> compute_trade_drawdowns (analyzer_init ts capital) = Inr st
         \<and> length (drawdown_series eq) = length ts
         \<and> (\<forall>i < length ts. \<exists>v. drawdown_series eq ! i = Fin v \<and> v \<le> 0)
         \<and> (\<exists>m. max_drawdown st = Fin m \<and> m \<le> 0)"
proof -
  from assms(1) obtain t ts' where ts: "ts = t # ts'" by (cases ts) auto
  let ?x = "capital + profit t"
  let ?ys = "map (\<lambda>c. capital + c) (cumsum_from (profit t) (map profit ts'))"
  let ?eq = "?x # ?ys"
  let ?dd = "drawdown_series ?eq"
  have pos: "0 < ?x" using assms(2) ts by simp
  have eq: "equity_curve (analyzer_init ts capital) = Some ?eq"
    unfolding ts by (rule equity_curve_init)
  have len: "length ?eq = length ts" by (simp add: ts length_cumsum_from)
  have lacc: "length (accumulate_from m xs) = length xs" for m xs
    by (induction xs arbitrary: m) simp_all
  have lend: "length ?dd = length ts"
    by (simp add: drawdown_series_def maximum_accumulate_def lacc ts length_cumsum_from)
  have all: "\<exists>v. d = Fin v \<and> v \<le> 0" if "d \<in> set ?dd" for d
    using drawdown_series_nonpos [OF pos that] .
  have idx: "\<forall>i < length ts. \<exists>v. ?dd ! i = Fin v \<and> v \<le> 0"
  proof (intro allI impI)
    fix i assume "i < length ts"
    then have "?dd ! i \<in> set ?dd" using lend by (metis nth_mem)
    then show "\<exists>v. ?dd ! i = Fin v \<and> v \<le> 0" by (rule all)
  qed
  have "?dd \<noteq> []" using lend ts by auto
  then obtain d0 where d0: "d0 \<in> set ?dd" by (cases ?dd) auto
  from all [OF d0] have "d0 \<noteq> NaN" by auto
  with d0 have "series_min ?dd \<in> set ?dd" by (intro series_min_mem) blast
  from all [OF this] have mn: "\<exists>m. series_min ?dd = Fin m \<and> m \<le> 0" .
  let ?st = "\<lparr>max_drawdown = series_min ?dd,
              drawdown_duration = compute_drawdown_duration ?dd,
              recovery_time = compute_recovery_time ?dd\<rparr>"
  have st: "compute_trade_drawdowns (analyzer_init ts capital) = Inr ?st"
    unfolding compute_trade_drawdowns_def eq by (simp add: ebind_def get_attr_def Let_def)
  have "max_drawdown ?st = series_min ?dd" by simp
  with mn have mx: "\<exists>m. max_drawdown ?st = Fin m \<and> m \<le> 0" by simp
  from eq len st lend idx mx show ?thesis by blast
qed


theorem drawdowns_nonpositive_witness:
  "[\<lparr>trade_type = ''long'', profit = 10\<rparr>, \<lparr>trade_type = ''short'', profit = - 10\<rparr>] \<noteq> []
   \<and> (0::real) < 100 + profit (hd [\<lparr>trade_type = ''long'', profit = 10\<rparr>, \<lparr>trade_type = ''short'', profit = - 10\<rparr>])
   \<and> (\<exists>eq st.
           equity_curve (analyzer_init [\<lparr>trade_type = ''long'', profit = 10\<rparr>, \<lparr>trade_type = ''short'', profit = - 10\<rparr>] 100) = Some eq
         \<and> length eq = length [\<lparr>trade_type = ''long'', profit = 10\<rparr>, \<lparr>trade_type = ''short'', profit = - 10\<rparr>]
         \<and> compute_trade_drawdowns (analyzer_init [\<lparr>trade_type = ''long'', profit = 10\<rparr>, \<lparr>trade_type = ''short'', profit = - 10\<rparr>] 100) = Inr st
         \<and> length (drawdown_series eq) = length [\<lparr>trade_type = ''long'', profit = 10\<rparr>, \<lparr>trade_type = ''short'', profit = - 10\<rparr>]
         \<and> (\<forall>i < length [\<lparr>trade_type = ''long'', profit = 10\<rparr>, \<lparr>trade_type = ''short'', profit = - 10\<rparr>]. \<exists>v. drawdown_series eq ! i = Fin v \<and> v \<le> 0)
         \<and> (\<exists>m. max_drawdown st = Fin m \<and> m \<le> 0))"
  using drawdowns_nonpositive [of "[\<lparr>trade_type = ''long'', profit = 10\<rparr>, \<lparr>trade_type = ''short'', profit = - 10\<rparr>]" 100]
  by simp

text \<open>
  C6 (as stated) fails once the equity is negative: with \<open>initial_capital = 1\<close> and the
  profits \<open>-2, -1\<close> the equity curve is \<open>-1, -2\<close>, the running maximum \<open>-1, -1\<close>, and the
  second drawdown is \<open>(-2 + 1) / (-1) = 1 > 0\<close>.
\<close>

theorem drawdown_positive:
  "equity_curve
     (analyzer_init [\<lparr>trade_type = ''long'', profit = - 2\<rparr>, \<lparr>trade_type = ''short'', profit = - 1\<rparr>] 1)
     = Some [- 1, - 2]
   \<and> drawdown_series [- 1, - 2] = [Fin 0, Fin 1]
   \<and> \<not> fle (drawdown_series [- 1, - 2] ! 1) (Fin 0)"
  by (simp add: analyzer_init_def process_trades_def cumsum_def drawdown_series_def
      maximum_accumulate_def fle_def Let_def)

lemma quantile_linear_bounds:
  assumes srt: "sorted s" and ne: "s \<noteq> []" and v0: "0 \<le> real (length s - 1) * t"
    and v1: "real (length s - 1) * t \<le> real (length s - 1)"
  shows "s ! nat \<lfloor>real (length s - 1) * t\<rfloor> \<le> quantile_linear s t"
    and "quantile_linear s t \<le> s ! min (nat \<lfloor>real (length s - 1) * t\<rfloor> + 1) (length s - 1)"
proof -
  let ?v = "real (length s - 1) * t"
  let ?lo = "nat \<lfloor>?v\<rfloor>"
  let ?hi = "min (?lo + 1) (length s - 1)"
  let ?g = "?v - real ?lo"
  have lo_eq: "real ?lo = of_int \<lfloor>?v\<rfloor>" using v0 by simp
  have g0: "0 \<le> ?g" unfolding lo_eq by linarith
  have g1: "?g \<le> 1" unfolding lo_eq by linarith
  have "\<lfloor>?v\<rfloor> \<le> int (length s - 1)" using v1 by (simp add: floor_le_iff)
  then have lo_le: "?lo \<le> length s - 1" by linarith
  have hi_lt: "?hi < length s" using ne by (cases s) auto
  have lo_hi: "?lo \<le> ?hi" using lo_le by simp
  have d0: "0 \<le> s ! ?hi - s ! ?lo"
    using sorted_nth_mono [OF srt lo_hi hi_lt] by simp
  have q: "quantile_linear s t = s ! ?lo + ?g * (s ! ?hi - s ! ?lo)"
    by (simp only: quantile_linear_def Let_def)
  have "0 \<le> ?g * (s ! ?hi - s ! ?lo)" using g0 d0 by (rule mult_nonneg_nonneg)
  then show "s ! ?lo \<le> quantile_linear s t" unfolding q by linarith
  have "?g * (s ! ?hi - s ! ?lo) \<le> s ! ?hi - s ! ?lo"
    using d0 g0 g1 by (rule mult_left_le_one_le)
  then show "quantile_linear s t \<le> s ! ?hi" unfolding q by linarith
qed

lemma quantile_linear_mono:
  assumes srt: "sorted s" and ne: "s \<noteq> []" and t0: "0 \<le> t1" and t12: "t1 \<le> t2" and t1: "t2 \<le> 1"
  shows "quantile_linear s t1 \<le> quantile_linear s t2"
proof -
  let ?n = "real (length s - 1)"
  let ?v1 = "?n * t1" and ?v2 = "?n * t2"
  let ?lo1 = "nat \<lfloor>?v1\<rfloor>" and ?lo2 = "nat \<lfloor>?v2\<rfloor>"
  let ?hi1 = "min (?lo1 + 1) (length s - 1)" and ?hi2 = "min (?lo2 + 1) (length s - 1)"
  have n0: "0 \<le> ?n" by simp
  have v1_0: "0 \<le> ?v1" using n0 t0 by (rule mult_nonneg_nonneg)
  have v12: "?v1 \<le> ?v2" using t12 n0 by (rule mult_left_mono)
  have v2_0: "0 \<le> ?v2" using v1_0 v12 by linarith
  have "?n * t2 \<le> ?n * 1" using t1 n0 by (rule mult_left_mono)
  then have v2_n: "?v2 \<le> ?n" by simp
  have v1_n: "?v1 \<le> ?n" using v12 v2_n by linarith
  have lo12: "?lo1 \<le> ?lo2" using v12 by (intro nat_mono floor_mono)
  have "\<lfloor>?v2\<rfloor> \<le> int (length s - 1)" using v2_n by (simp add: floor_le_iff)
  then have lo2_le: "?lo2 \<le> length s - 1" by linarith
  have lo2_lt: "?lo2 < length s" using lo2_le ne by (cases s) auto
  show ?thesis
  proof (cases "?lo1 = ?lo2")
    case True
    have lo_eq: "real ?lo2 = of_int \<lfloor>?v2\<rfloor>" using v2_0 by simp
    have hi_lt: "?hi2 < length s" using ne by (cases s) auto
    have lo_hi: "?lo2 \<le> ?hi2" using lo2_le by simp
    have d0: "0 \<le> s ! ?hi2 - s ! ?lo2"
      using sorted_nth_mono [OF srt lo_hi hi_lt] by simp
    have q1: "quantile_linear s t1 = s ! ?lo2 + (?v1 - real ?lo2) * (s ! ?hi2 - s ! ?lo2)"
      by (simp only: quantile_linear_def Let_def True)
    have q2: "quantile_linear s t2 = s ! ?lo2 + (?v2 - real ?lo2) * (s ! ?hi2 - s ! ?lo2)"
      by (simp only: quantile_linear_def Let_def)
    have "(?v1 - real ?lo2) * (s ! ?hi2 - s ! ?lo2) \<le> (?v2 - real ?lo2) * (s ! ?hi2 - s ! ?lo2)"
      using v12 d0 by (intro mult_right_mono) linarith+
    then show ?thesis unfolding q1 q2 by linarith
  next
    case False
    with lo12 have "?lo1 + 1 \<le> ?lo2" by linarith
    then have "?hi1 \<le> ?lo2" by (rule min.coboundedI1)
    then have mid: "s ! ?hi1 \<le> s ! ?lo2" using lo2_lt by (intro sorted_nth_mono [OF srt])
    have a: "quantile_linear s t1 \<le> s ! ?hi1"
      using quantile_linear_bounds(2) [OF srt ne v1_0 v1_n] .
    have b: "s ! ?lo2 \<le> quantile_linear s t2"
      using quantile_linear_bounds(1) [OF srt ne v2_0 v2_n] .
    from a mid b show ?thesis by linarith
  qed
qed

lemma finite_values_Fin: "finite_values (map Fin xs) = Some xs"
  by (induction xs) simp_all

lemma returns_init:
  "ts \<noteq> [] \<Longrightarrow> capital \<noteq> 0 \<Longrightarrow>
   returns (analyzer_init ts capital) = Some (map Fin (map (\<lambda>p. p / capital) (map profit ts)))"
  by (simp add: analyzer_init_def process_trades_def Let_def comp_def)

lemma np_percentile_Fin:
  assumes "xs \<noteq> []" and "0 \<le> c" and "c \<le> 1"
  shows "np_percentile (map Fin xs) (100 * (1 - c)) = Inr (Fin (quantile_linear (sort xs) (1 - c)))"
proof -
  have q: "100 * (1 - c) / 100 = 1 - c" by simp
  have r: "\<not> (100 * (1 - c) < 0 \<or> 100 < 100 * (1 - c))" using assms(2,3) by simp
  show ?thesis
    unfolding np_percentile_def finite_values_Fin q if_not_P [OF r] using assms(1) by simp
qed

lemma historical_var_finite:
  assumes "ts \<noteq> []" and "capital \<noteq> 0" and "0 \<le> c" and "c \<le> 1"
  shows "compute_strategy_var ppf (analyzer_init ts capital) ''historical'' c
         = Inr (Fin (quantile_linear (sort (map (\<lambda>p. p / capital) (map profit ts))) (1 - c)))"
proof -
  have ne: "map (\<lambda>p. p / capital) (map profit ts) \<noteq> []" using assms(1) by simp
  have "compute_strategy_var ppf (analyzer_init ts capital) ''historical'' c
        = np_percentile (map Fin (map (\<lambda>p. p / capital) (map profit ts))) (100 * (1 - c))"
    unfolding compute_strategy_var_def historical_var_def returns_init [OF assms(1,2)]
    by (simp add: ebind_def get_attr_def)
  then show ?thesis unfolding np_percentile_Fin [OF ne assms(3,4)] .
qed


text \<open>
  C8. For a non-empty trade sequence, a non-zero capital and confidence levels
  \<open>0 < c1 \<le> c2 < 1\<close>, both historical VaR values are finite and the one at \<open>c2\<close> is at
  most the one at \<open>c1\<close>: the \<open>(1 - c)\<close>-quantile with linear interpolation between order
  statistics does not increase when \<open>c\<close> grows.
\<close>

theorem historical_var_antimono:
  assumes "ts \<noteq> []" and "capital \<noteq> 0" and "0 < c1" and "c1 \<le> c2" and "c2 < 1"
  shows "\<exists>v1 v2.
           compute_strategy_var ppf (analyzer_init ts capital) ''historical'' c1 = Inr (Fin v1)
         \<and> compute_strategy_var ppf (analyzer_init ts capital) ''historical'' c2 = Inr (Fin v2)
         \<and> v2 \<le> v1"
proof -
  let ?s = "sort (map (\<lambda>p. p / capital) (map profit ts))"
  have e1: "compute_strategy_var ppf (analyzer_init ts capital) ''historical'' c1
            = Inr (Fin (quantile_linear ?s (1 - c1)))"
    using assms by (intro historical_var_finite) simp_all
  have e2: "compute_strategy_var ppf (analyzer_init ts capital) ''historical'' c2
            = Inr (Fin (quantile_linear ?s (1 - c2)))"
    using assms by (intro historical_var_finite) simp_all
  have ne: "?s \<noteq> []" using assms(1) by (metis length_0_conv length_map length_sort)
  have "quantile_linear ?s (1 - c2) \<le> quantile_linear ?s (1 - c1)"
    using assms by (intro quantile_linear_mono ne) simp_all
  with e1 e2 show ?thesis by blast
qed

theorem historical_var_antimono_witness:
  "\<exists>v1 v2.
     compute_strategy_var (\<lambda>p. NaN) (analyzer_init [\<lparr>trade_type = ''long'', profit = 10\<rparr>, \<lparr>trade_type = ''short'', profit = - 10\<rparr>] 100) ''historical'' (9 / 10) = Inr (Fin v1)
   \<and> compute_strategy_var (\<lambda>p. NaN) (analyzer_init [\<lparr>trade_type = ''long'', profit = 10\<rparr>, \<lparr>trade_type = ''short'', profit = - 10\<rparr>] 100) ''historical'' (19 / 20) = Inr (Fin v2)
   \<and> v2 \<le> v1"
  using historical_var_antimono [of "[\<lparr>trade_type = ''long'', profit = 10\<rparr>, \<lparr>trade_type = ''short'', profit = - 10\<rparr>]" 100 "9 / 10" "19 / 20" "\<lambda>p. NaN"]
  by simp

section \<open>Properties of the rolling-window backtest\<close>

lemma backtest_step_finite:
  assumes "0 < sd"
  shows "backtest_step thr pos \<lparr>rolling_mean = Fin m, rolling_std = Fin sd, spread = Fin sp\<rparr> =
     (let z = (sp - m) / sd
      in if pos = 0 then (if thr < z then - 1 else if z < - thr then 1 else 0)
         else if (pos = 1 \<and> 0 \<le> z) \<or> (pos = - 1 \<and> z \<le> 0) then 0
         else pos)"
proof -
  have a: "m + thr * sd < sp \<longleftrightarrow> thr < (sp - m) / sd"
    using assms by (simp add: pos_less_divide_eq algebra_simps)
  have b: "sp < m - thr * sd \<longleftrightarrow> (sp - m) / sd < - thr"
    using assms by (simp add: pos_divide_less_eq algebra_simps)
  have c: "m \<le> sp \<longleftrightarrow> 0 \<le> (sp - m) / sd"
    using assms by (simp add: zero_le_divide_iff)
  have d: "sp \<le> m \<longleftrightarrow> (sp - m) / sd \<le> 0"
    using assms by (simp add: divide_le_0_iff)
  have e: "fle (Fin x) (Fin y) \<longleftrightarrow> x \<le> y" for x y by (auto simp: fle_def)
  show ?thesis
    unfolding backtest_step_def Let_def
    by (simp add: fsub_def e a b c d)
qed

lemma backtest_loop_length: "length (backtest_loop thr p rs) = length rs"
  by (induction rs arbitrary: p) (simp_all add: Let_def)

lemma backtest_loop_nth:
  "j < length rs \<Longrightarrow>
   backtest_loop thr p rs ! j =
     backtest_step thr (if j = 0 then p else backtest_loop thr p rs ! (j - 1)) (rs ! j)"
proof (induction rs arbitrary: p j)
  case Nil
  then show ?case by simp
next
  case (Cons r rs)
  show ?case
  proof (cases j)
    case 0
    then show ?thesis by (simp add: Let_def)
  next
    case (Suc k)
    with Cons.prems have k: "k < length rs" by simp
    from Cons.IH [OF k, of "backtest_step thr p r"] Suc show ?thesis
      by (cases k) (simp_all add: Let_def)
  qed
qed

lemma backtest_positions_length: "length (backtest_positions thr rows) = length rows"
  by (cases rows) (simp_all add: backtest_positions_def backtest_loop_length)

lemma backtest_positions_nth:
  assumes "0 < i" and "i < length rows"
  shows "backtest_positions thr rows ! i =
         backtest_step thr (backtest_positions thr rows ! (i - 1)) (rows ! i)"
proof -
  from assms obtain r rs where rows: "rows = r # rs" by (cases rows) auto
  from assms obtain j where i: "i = Suc j" by (cases i) auto
  have j: "j < length rs" using assms rows i by simp
  show ?thesis
    using backtest_loop_nth [OF j, of thr 0]
    by (cases j) (simp_all add: backtest_positions_def rows i)
qed

lemma diff_from_length: "length (diff_from p xs) = length xs"
  by (induction xs arbitrary: p) simp_all

lemma diff_from_nth:
  "j < length xs \<Longrightarrow> diff_from p xs ! j = fsub (xs ! j) (if j = 0 then p else xs ! (j - 1))"
proof (induction xs arbitrary: p j)
  case Nil
  then show ?case by simp
next
  case (Cons x xs)
  show ?case
  proof (cases j)
    case 0
    then show ?thesis by simp
  next
    case (Suc k)
    with Cons.prems have k: "k < length xs" by simp
    from Cons.IH [OF k, of x] Suc show ?thesis by (cases k) simp_all
  qed
qed

lemma series_diff_nth:
  assumes "0 < i" and "i < length xs"
  shows "series_diff xs ! i = fsub (xs ! i) (xs ! (i - 1))"
proof -
  from assms obtain x ys where xs: "xs = x # ys" by (cases xs) auto
  from assms obtain j where i: "i = Suc j" by (cases i) auto
  have j: "j < length ys" using assms xs i by simp
  show ?thesis using diff_from_nth [OF j, of x] by (cases j) (simp_all add: series_diff_def xs i)
qed

lemma series_diff_length: "length (series_diff xs) = length xs"
  by (cases xs) (simp_all add: series_diff_def diff_from_length)

lemma series_shift_length: "length (series_shift ps) = length ps"
  by (cases ps) (simp_all add: series_shift_def)

lemma series_shift_nth:
  assumes "0 < i" and "i < length ps"
  shows "series_shift ps ! i = Fin (real_of_int (ps ! (i - 1)))"
proof -
  from assms obtain p qs where ps: "ps = p # qs" by (cases ps) auto
  from assms obtain j where i: "i = Suc j" by (cases i) auto
  have j: "j < length (butlast ps)" using assms i by simp
  have "series_shift ps ! i = map (\<lambda>q. Fin (real_of_int q)) (butlast ps) ! j"
    by (simp add: series_shift_def ps i)
  also have "\<dots> = Fin (real_of_int (butlast ps ! j))" using j by simp
  also have "butlast ps ! j = ps ! j" using j by (simp add: nth_butlast)
  finally show ?thesis by (simp add: i)
qed

lemma backtest_pnl_nth:
  assumes "0 < i" and "i < length rows"
  shows "bt_pnl (backtest thr rows) ! i =
         fmul (Fin (real_of_int (bt_position (backtest thr rows) ! (i - 1))))
              (fillna0 (fsub (spread (rows ! i)) (spread (rows ! (i - 1)))))"
proof -
  let ?ps = "backtest_positions thr rows"
  let ?sh = "map fillna0 (series_shift ?ps)"
  let ?df = "map fillna0 (series_diff (map spread rows))"
  have l1: "i < length ?sh" using assms by (simp add: series_shift_length backtest_positions_length)
  have l2: "i < length ?df" using assms by (simp add: series_diff_length)
  have ips: "i < length ?ps" using assms by (simp add: backtest_positions_length)
  have "bt_pnl (backtest thr rows) ! i = fmul (?sh ! i) (?df ! i)"
    using l1 l2 by (simp add: backtest_def Let_def)
  moreover have "?sh ! i = Fin (real_of_int (?ps ! (i - 1)))"
    using l1 series_shift_nth [OF assms(1) ips]
    by (simp add: series_shift_length fillna0_def)
  moreover have "?df ! i = fillna0 (fsub (spread (rows ! i)) (spread (rows ! (i - 1))))"
    using l2 series_diff_nth [of i "map spread rows"] assms
    by (simp add: series_diff_length)
  moreover have "bt_position (backtest thr rows) = ?ps" by (simp add: backtest_def Let_def)
  ultimately show ?thesis by simp
qed

lemma spec_step_finite:
  assumes "0 < sd" and "(sp - m) / sd \<noteq> thr" and "(sp - m) / sd \<noteq> - thr"
    and "spec_code st = pos"
  shows "spec_code (fst (spec_step
            \<lparr>entry_threshold = thr, long_exit_threshold = 0, short_exit_threshold = 0,
              transaction_cost = tc\<rparr> st
            (rolling_z \<lparr>rolling_mean = Fin m, rolling_std = Fin sd, spread = Fin sp\<rparr>, Fin sp)))
         = backtest_step thr pos \<lparr>rolling_mean = Fin m, rolling_std = Fin sd, spread = Fin sp\<rparr>"
proof -
  have e: "fle (Fin x) (Fin y) \<longleftrightarrow> x \<le> y" for x y by (auto simp: fle_def)
  have z: "rolling_z \<lparr>rolling_mean = Fin m, rolling_std = Fin sd, spread = Fin sp\<rparr>
           = Fin ((sp - m) / sd)"
    using assms(1) by (simp add: rolling_z_def fsub_def)
  show ?thesis
    unfolding backtest_step_finite [OF assms(1)] z Let_def
    using assms(2,3,4) by (cases st) (auto simp: e)
qed

text \<open>
  C7 (as the code has it). On a row with finite values and a positive rolling standard
  deviation, with \<open>z = (spread - rolling_mean) / rolling_std\<close>, the backtest opens SHORT
  from FLAT when \<open>z > threshold\<close> and LONG when \<open>z < -threshold\<close> (strict comparisons), and
  closes LONG when \<open>z \<ge> 0\<close> and SHORT when \<open>z \<le> 0\<close>: away from \<open>z = threshold\<close> and
  \<open>z = -threshold\<close> this is the transition of the section 4.2 machine with both exit
  thresholds 0.  The first row always has position 0, every later position is the step
  applied to the previous position, and the profit of a row is the previous position
  times the change of the spread, with no transaction cost.
\<close>

theorem backtest_contract:
  "(0 < sd \<longrightarrow>
      backtest_step thr pos \<lparr>rolling_mean = Fin m, rolling_std = Fin sd, spread = Fin sp\<rparr> =
        (let z = (sp - m) / sd
         in if pos = 0 then (if thr < z then - 1 else if z < - thr then 1 else 0)
            else if (pos = 1 \<and> 0 \<le> z) \<or> (pos = - 1 \<and> z \<le> 0) then 0
            else pos))
   \<and> (0 < sd \<and> (sp - m) / sd \<noteq> thr \<and> (sp - m) / sd \<noteq> - thr \<and> spec_code st = pos \<longrightarrow>
      spec_code (fst (spec_step
          \<lparr>entry_threshold = thr, long_exit_threshold = 0, short_exit_threshold = 0,
            transaction_cost = tc\<rparr> st
          (rolling_z \<lparr>rolling_mean = Fin m, rolling_std = Fin sd, spread = Fin sp\<rparr>, Fin sp)))
        = backtest_step thr pos \<lparr>rolling_mean = Fin m, rolling_std = Fin sd, spread = Fin sp\<rparr>)
   \<and> length (bt_position (backtest thr rows)) = length rows
   \<and> (rows \<noteq> [] \<longrightarrow> bt_position (backtest thr rows) ! 0 = 0)
   \<and> (0 < i \<and> i < length rows \<longrightarrow>
        bt_position (backtest thr rows) ! i =
          backtest_step thr (bt_position (backtest thr rows) ! (i - 1)) (rows ! i)
      \<and> bt_pnl (backtest thr rows) ! i =
          fmul (Fin (real_of_int (bt_position (backtest thr rows) ! (i - 1))))
               (fillna0 (fsub (spread (rows ! i)) (spread (rows ! (i - 1))))))"
proof -
  have p: "bt_position (backtest thr rows) = backtest_positions thr rows"
    by (simp add: backtest_def Let_def)
  have first: "rows \<noteq> [] \<Longrightarrow> bt_position (backtest thr rows) ! 0 = 0"
    unfolding p by (cases rows) (simp_all add: backtest_positions_def)
  have len: "length (bt_position (backtest thr rows)) = length rows"
    unfolding p by (rule backtest_positions_length)
  have nth: "bt_position (backtest thr rows) ! i =
          backtest_step thr (bt_position (backtest thr rows) ! (i - 1)) (rows ! i)"
    if "0 < i" "i < length rows"
    unfolding p using that by (rule backtest_positions_nth)
  show ?thesis
    using backtest_step_finite [of sd thr pos m sp] spec_step_finite [of sd sp m thr st pos tc]
      first len nth backtest_pnl_nth [of i rows thr]
    by blast
qed

theorem backtest_contract_witness:
  "backtest_step (3 / 2) 0 \<lparr>rolling_mean = Fin (1 / 2), rolling_std = Fin 1, spread = Fin 3\<rparr> = - 1
   \<and> spec_code (fst (spec_step \<lparr>entry_threshold = 3 / 2, long_exit_threshold = 0, short_exit_threshold = 0,
        transaction_cost = 0\<rparr> FLAT
        (rolling_z \<lparr>rolling_mean = Fin (1 / 2), rolling_std = Fin 1, spread = Fin 3\<rparr>, Fin 3))) = - 1
   \<and> bt_position (backtest (3 / 2) [\<lparr>rolling_mean = Fin 0, rolling_std = NaN, spread = Fin 0\<rparr>,
       \<lparr>rolling_mean = Fin (1 / 2), rolling_std = Fin 1, spread = Fin 3\<rparr>]) ! 0 = 0
   \<and> bt_position (backtest (3 / 2) [\<lparr>rolling_mean = Fin 0, rolling_std = NaN, spread = Fin 0\<rparr>,
       \<lparr>rolling_mean = Fin (1 / 2), rolling_std = Fin 1, spread = Fin 3\<rparr>]) ! 1 = - 1
   \<and> bt_pnl (backtest (3 / 2) [\<lparr>rolling_mean = Fin 0, rolling_std = NaN, spread = Fin 0\<rparr>,
       \<lparr>rolling_mean = Fin (1 / 2), rolling_std = Fin 1, spread = Fin 3\<rparr>]) ! 1 = Fin 0"
  using backtest_contract [of 1 "3 / 2" 0 "1 / 2" 3 FLAT 0 "[\<lparr>rolling_mean = Fin 0, rolling_std = NaN, spread = Fin 0\<rparr>,
       \<lparr>rolling_mean = Fin (1 / 2), rolling_std = Fin 1, spread = Fin 3\<rparr>]" 1]
  by (simp add: backtest_def backtest_positions_def backtest_step_def rolling_z_def fsub_def
      fle_def series_diff_def series_shift_def fillna0_def Let_def)

text \<open>
  C7 (as stated) fails: with the default threshold 1.5 and the spreads \<open>0, 0, 0, 2\<close>
  (rolling mean 0.5 and rolling standard deviation 1 on the last row) the last z-score
  is exactly 1.5.  The section 4.2 machine opens SHORT there (\<open>z \<ge> entry_threshold\<close>),
  the backtest stays flat (\<open>spread > upper\<close> is false).
\<close>

theorem backtest_differs_from_spec:
  "bt_position (backtest (3 / 2) [\<lparr>rolling_mean = Fin 0, rolling_std = NaN, spread = Fin 0\<rparr>,
       \<lparr>rolling_mean = Fin 0, rolling_std = Fin 0, spread = Fin 0\<rparr>,
       \<lparr>rolling_mean = Fin 0, rolling_std = Fin 0, spread = Fin 0\<rparr>,
       \<lparr>rolling_mean = Fin (1 / 2), rolling_std = Fin 1, spread = Fin 2\<rparr>]) = [0, 0, 0, 0]
   \<and> spec_positions \<lparr>entry_threshold = 3 / 2, long_exit_threshold = 0, short_exit_threshold = 0,
        transaction_cost = 0\<rparr> FLAT [\<lparr>rolling_mean = Fin 0, rolling_std = NaN, spread = Fin 0\<rparr>,
       \<lparr>rolling_mean = Fin 0, rolling_std = Fin 0, spread = Fin 0\<rparr>,
       \<lparr>rolling_mean = Fin 0, rolling_std = Fin 0, spread = Fin 0\<rparr>,
       \<lparr>rolling_mean = Fin (1 / 2), rolling_std = Fin 1, spread = Fin 2\<rparr>] = [0, 0, 0, - 1]"
  by (simp add: backtest_def backtest_positions_def backtest_step_def rolling_z_def fsub_def
      fle_def signed_inf_def Let_def)

end
